theory Spec2Isabelle
  imports Main "HOL-Library.Word"
begin

section \<open>Failures\<close>

text \<open>
  The ways an operation of the library can fail to return normally:
  \<^item> \<open>Runtime_error msg\<close>: \<^verbatim>\<open>throw std::runtime_error(msg)\<close> (resource_pool::checkout);
  \<^item> \<open>Out_of_range\<close>: \<^verbatim>\<open>std::vector::at\<close> with an index that is not below \<^verbatim>\<open>size()\<close>;
  \<^item> \<open>Bad_function_call\<close>: invoking a \<^verbatim>\<open>std::function\<close> that holds no target;
  \<^item> \<open>Thrown n\<close>: any exception object thrown by user code inside a callback;
  \<^item> \<open>Undefined_behaviour\<close>: a call whose precondition in the C++ standard does not hold
    (\<^verbatim>\<open>counting_semaphore::release\<close> when the counter already is \<^verbatim>\<open>max()\<close>).
\<close>

datatype failure =
    Runtime_error string
  | Out_of_range
  | Bad_function_call
  | Thrown nat
  | Undefined_behaviour

section \<open>The signal: std::counting_semaphore\<close>

text \<open>
  \<^verbatim>\<open>std::counting_semaphore<512> signal {0};\<close>
  The template argument is the least maximal value; \<^verbatim>\<open>max()\<close> is fixed by the
  implementation and is at least that argument. It is kept in the state as \<open>sem_max\<close>.
  The model is sequential: a bounded wait on a counter that is 0 runs into its timeout,
  because nobody releases meanwhile.
\<close>

record counting_semaphore =
  counter :: nat
  sem_max :: nat

definition counting_semaphore_new :: "nat \<Rightarrow> nat \<Rightarrow> counting_semaphore" where
  "counting_semaphore_new mx desired = \<lparr>counter = desired, sem_max = mx\<rparr>"

definition try_acquire_for :: "counting_semaphore \<Rightarrow> bool \<times> counting_semaphore" where
  "try_acquire_for s =
     (if 0 < counter s then (True, s\<lparr>counter := counter s - 1\<rparr>) else (False, s))"

definition release :: "counting_semaphore \<Rightarrow> failure + counting_semaphore" where
  "release s =
     (if counter s < sem_max s then Inr (s\<lparr>counter := counter s + 1\<rparr>)
      else Inl Undefined_behaviour)"

section \<open>Callbacks and threads\<close>

text \<open>
  A callback is a \<^verbatim>\<open>std::function<void(T&)>\<close> (\<^verbatim>\<open>std::function<void()>\<close> for the
  periodic worker). It runs user code on whatever it has captured, here the environment
  \<open>'e\<close>, and either returns or throws. \<open>None\<close> is a \<^verbatim>\<open>std::function\<close> without a
  target; invoking it throws \<^verbatim>\<open>std::bad_function_call\<close>.
\<close>

type_synonym ('a, 'e) callback = "('a \<Rightarrow> 'e \<Rightarrow> failure option \<times> 'e) option"

definition invoke :: "('a, 'e) callback \<Rightarrow> 'a \<Rightarrow> 'e \<Rightarrow> failure option \<times> 'e" where
  "invoke c item env = (case c of None \<Rightarrow> (Some Bad_function_call, env) | Some f \<Rightarrow> f item env)"

text \<open>
  \<^verbatim>\<open>try { ... } catch (...) { }\<close>: whatever the block has thrown is dropped; the effects it
  had before throwing stay.
\<close>

definition catch_all :: "failure option \<times> 's \<Rightarrow> failure option \<times> 's" where
  "catch_all r = (None, snd r)"

text \<open>
  What has become of a thread function after a number of loop iterations:
  \<open>Looping\<close>, it is still inside \<^verbatim>\<open>while (!st.stop_requested())\<close>;
  \<open>Returned\<close>, the loop has seen the stop request and the function has returned;
  \<open>Terminated f\<close>, the exception \<open>f\<close> has left the thread function.
\<close>

datatype thread_status = Looping | Returned | Terminated failure


section \<open>basic_worker\<close>

record ('a, 'e) basic_worker =
  bw_items :: "'a list"
  bw_signal :: counting_semaphore
  bw_callback :: "('a, 'e) callback"

text \<open>
  \<^verbatim>\<open>basic_worker(std::function<void(T&)> c)\<close> with the default member initialisers;
  \<open>mx\<close> is \<^verbatim>\<open>signal.max()\<close>.
\<close>

definition basic_worker_new :: "nat \<Rightarrow> ('a, 'e) callback \<Rightarrow> ('a, 'e) basic_worker" where
  "basic_worker_new mx c =
     \<lparr>bw_items = [], bw_signal = counting_semaphore_new mx 0, bw_callback = c\<rparr>"

text \<open>
  \<^verbatim>\<open>basic_worker(basic_worker&& src) : callback(std::move(src.callback)) {}\<close>
  Every other member of the new object gets its default member initialiser.
\<close>

definition basic_worker_move :: "('a, 'e) basic_worker \<Rightarrow> ('a, 'e) basic_worker" where
  "basic_worker_move src =
     \<lparr>bw_items = [],
      bw_signal = counting_semaphore_new (sem_max (bw_signal src)) 0,
      bw_callback = bw_callback src\<rparr>"

text \<open>
  \<^verbatim>\<open>void queue(T&& item) { { lock; items.emplace_back(std::move(item)); } signal.release(); }\<close>
\<close>

definition bw_queue :: "'a \<Rightarrow> ('a, 'e) basic_worker \<Rightarrow> failure + ('a, 'e) basic_worker" where
  "bw_queue item w =
     (let w1 = w\<lparr>bw_items := bw_items w @ [item]\<rparr>
      in case release (bw_signal w1) of
           Inl f \<Rightarrow> Inl f
         | Inr s \<Rightarrow> Inr (w1\<lparr>bw_signal := s\<rparr>))"

fun bw_queue_all :: "'a list \<Rightarrow> ('a, 'e) basic_worker \<Rightarrow> failure + ('a, 'e) basic_worker" where
  "bw_queue_all [] w = Inr w"
| "bw_queue_all (x # xs) w =
     (case bw_queue x w of Inl f \<Rightarrow> Inl f | Inr w' \<Rightarrow> bw_queue_all xs w')"

text \<open>
  The block inside \<^verbatim>\<open>try\<close> of the processor thread. \<open>stop\<close> is what
  \<^verbatim>\<open>st.stop_requested()\<close> answers after the wait.
\<close>

definition bw_try_block ::
  "bool \<Rightarrow> ('a, 'e) basic_worker \<Rightarrow> 'e \<Rightarrow> failure option \<times> ('a, 'e) basic_worker \<times> 'e" where
  "bw_try_block stop w env =
     (case try_acquire_for (bw_signal w) of
        (False, s) \<Rightarrow> (None, w\<lparr>bw_signal := s\<rparr>, env)
      | (True, s) \<Rightarrow>
          (let w1 = w\<lparr>bw_signal := s\<rparr>
           in if bw_items w1 \<noteq> [] \<and> \<not> stop
              then (let item = hd (bw_items w1);
                        w2 = w1\<lparr>bw_items := tl (bw_items w1)\<rparr>;
                        r = invoke (bw_callback w2) item env
                    in (fst r, w2, snd r))
              else (None, w1, env)))"

text \<open>
  The processor thread. Its argument lists, for each iteration still to run, what
  \<^verbatim>\<open>st.stop_requested()\<close> answers at the head of the loop and after the wait.
\<close>

fun bw_processor ::
  "(bool \<times> bool) list \<Rightarrow> ('a, 'e) basic_worker \<Rightarrow> 'e \<Rightarrow> thread_status \<times> ('a, 'e) basic_worker \<times> 'e" where
  "bw_processor [] w env = (Looping, w, env)"
| "bw_processor ((stop1, stop2) # sched) w env =
     (if stop1 then (Returned, w, env)
      else case catch_all (bw_try_block stop2 w env) of
             (Some f, w', env') \<Rightarrow> (Terminated f, w', env')
           | (None, w', env') \<Rightarrow> bw_processor sched w' env')"

section \<open>simple_worker\<close>

record ('a, 'e) simple_worker =
  sw_queueCounter :: "64 word"
  sw_items :: "'a list"
  sw_signal :: counting_semaphore
  sw_callback :: "('a, 'e) callback"

definition simple_worker_new :: "nat \<Rightarrow> ('a, 'e) callback \<Rightarrow> ('a, 'e) simple_worker" where
  "simple_worker_new mx c =
     \<lparr>sw_queueCounter = 0, sw_items = [], sw_signal = counting_semaphore_new mx 0,
      sw_callback = c\<rparr>"

definition simple_worker_move :: "('a, 'e) simple_worker \<Rightarrow> ('a, 'e) simple_worker" where
  "simple_worker_move src =
     \<lparr>sw_queueCounter = 0, sw_items = [],
      sw_signal = counting_semaphore_new (sem_max (sw_signal src)) 0,
      sw_callback = sw_callback src\<rparr>"

text \<open>
  \<^verbatim>\<open>{ lock; items.emplace_back(std::move(item)); queueCounter++; } signal.release();\<close>
\<close>

definition sw_queue :: "'a \<Rightarrow> ('a, 'e) simple_worker \<Rightarrow> failure + ('a, 'e) simple_worker" where
  "sw_queue item w =
     (let w1 = w\<lparr>sw_items := sw_items w @ [item], sw_queueCounter := sw_queueCounter w + 1\<rparr>
      in case release (sw_signal w1) of
           Inl f \<Rightarrow> Inl f
         | Inr s \<Rightarrow> Inr (w1\<lparr>sw_signal := s\<rparr>))"

text \<open>
  \<^verbatim>\<open>std::optional<T> getNextItem(...)\<close> of simple_worker: wait on the signal; if the
  deque is not empty, \<open>popOnDestruct\<close> moves the front item out and pops it when its
  scope is left.
\<close>

definition sw_getNextItem :: "('a, 'e) simple_worker \<Rightarrow> 'a option \<times> ('a, 'e) simple_worker" where
  "sw_getNextItem w =
     (case try_acquire_for (sw_signal w) of
        (False, s) \<Rightarrow> (None, w\<lparr>sw_signal := s\<rparr>)
      | (True, s) \<Rightarrow>
          (let w1 = w\<lparr>sw_signal := s\<rparr>
           in if sw_items w1 \<noteq> []
              then (Some (hd (sw_items w1)), w1\<lparr>sw_items := tl (sw_items w1)\<rparr>)
              else (None, w1)))"

text \<open>
  The block inside \<^verbatim>\<open>try\<close>:
  \<^verbatim>\<open>if (auto item = getNextItem(signalWaitInterval); item && !st.stop_requested()) callback(*item);\<close>
\<close>

definition sw_try_block ::
  "bool \<Rightarrow> ('a, 'e) simple_worker \<Rightarrow> 'e \<Rightarrow> failure option \<times> ('a, 'e) simple_worker \<times> 'e" where
  "sw_try_block stop w env =
     (case sw_getNextItem w of
        (Some item, w1) \<Rightarrow>
          (if \<not> stop
           then (let r = invoke (sw_callback w1) item env in (fst r, w1, snd r))
           else (None, w1, env))
      | (None, w1) \<Rightarrow> (None, w1, env))"

fun sw_processor ::
  "(bool \<times> bool) list \<Rightarrow> ('a, 'e) simple_worker \<Rightarrow> 'e \<Rightarrow> thread_status \<times> ('a, 'e) simple_worker \<times> 'e" where
  "sw_processor [] w env = (Looping, w, env)"
| "sw_processor ((stop1, stop2) # sched) w env =
     (if stop1 then (Returned, w, env)
      else case catch_all (sw_try_block stop2 w env) of
             (Some f, w', env') \<Rightarrow> (Terminated f, w', env')
           | (None, w', env') \<Rightarrow> sw_processor sched w' env')"

section \<open>roundrobin_pool\<close>

record ('a, 'e) roundrobin_pool =
  rr_queueCounter :: "64 word"
  rr_workers :: "('a, 'e) simple_worker list"
  rr_workersSize :: "64 word"

text \<open>
  The constructor. \<open>N\<close> is the template argument (\<^verbatim>\<open>uint16_t\<close>), \<open>hw\<close> what
  \<^verbatim>\<open>std::thread::hardware_concurrency()\<close> returns (\<^verbatim>\<open>unsigned\<close>, 0 when it cannot
  tell), \<open>mx\<close> the \<^verbatim>\<open>max()\<close> of the workers' semaphores.
\<close>

definition roundrobin_pool_new ::
  "16 word \<Rightarrow> 32 word \<Rightarrow> nat \<Rightarrow> ('a, 'e) callback \<Rightarrow> ('a, 'e) roundrobin_pool" where
  "roundrobin_pool_new N hw mx c =
     (let n = (if 0 < N then unat N else unat hw);
          ws = replicate n (simple_worker_new mx c)
      in \<lparr>rr_queueCounter = 0, rr_workers = ws, rr_workersSize = of_nat (length ws)\<rparr>)"

text \<open>
  \<^verbatim>\<open>return workersSize == 0 ? 0 : queueCounter.load() % workersSize;\<close>
\<close>

definition nextWorkerIndex :: "('a, 'e) roundrobin_pool \<Rightarrow> nat" where
  "nextWorkerIndex p =
     (if rr_workersSize p = 0 then 0 else unat (rr_queueCounter p mod rr_workersSize p))"

text \<open>
  \<^verbatim>\<open>++queueCounter; workers.at(nextWorkerIndex()).queue(std::move(item));\<close>
  \<^verbatim>\<open>at\<close> throws \<^verbatim>\<open>std::out_of_range\<close> when the index is not below \<^verbatim>\<open>workers.size()\<close>.
\<close>

definition rr_queue :: "'a \<Rightarrow> ('a, 'e) roundrobin_pool \<Rightarrow> failure + ('a, 'e) roundrobin_pool" where
  "rr_queue item p =
     (let p1 = p\<lparr>rr_queueCounter := rr_queueCounter p + 1\<rparr>;
          i = nextWorkerIndex p1
      in if i < length (rr_workers p1)
         then (case sw_queue item (rr_workers p1 ! i) of
                 Inl f \<Rightarrow> Inl f
               | Inr w \<Rightarrow> Inr (p1\<lparr>rr_workers := (rr_workers p1)[i := w]\<rparr>))
         else Inl Out_of_range)"

text \<open>A single producer enqueuing a sequence of items, one call after the other.\<close>

fun rr_queue_all :: "'a list \<Rightarrow> ('a, 'e) roundrobin_pool \<Rightarrow> failure + ('a, 'e) roundrobin_pool" where
  "rr_queue_all [] p = Inr p"
| "rr_queue_all (x # xs) p =
     (case rr_queue x p of Inl f \<Rightarrow> Inl f | Inr p' \<Rightarrow> rr_queue_all xs p')"

section \<open>simple_pool\<close>

record ('a, 'e) simple_pool =
  sp_queueCounter :: "64 word"
  sp_callback :: "('a, 'e) callback"
  sp_signal :: counting_semaphore
  sp_items :: "'a list"

text \<open>
  \<^verbatim>\<open>{ lock; items.emplace_back(std::move(item)); } signal.release(); ++queueCounter;\<close>
\<close>

definition sp_queue :: "'a \<Rightarrow> ('a, 'e) simple_pool \<Rightarrow> failure + ('a, 'e) simple_pool" where
  "sp_queue item p =
     (let p1 = p\<lparr>sp_items := sp_items p @ [item]\<rparr>
      in case release (sp_signal p1) of
           Inl f \<Rightarrow> Inl f
         | Inr s \<Rightarrow> Inr (p1\<lparr>sp_signal := s, sp_queueCounter := sp_queueCounter p1 + 1\<rparr>))"

fun sp_queue_all :: "'a list \<Rightarrow> ('a, 'e) simple_pool \<Rightarrow> failure + ('a, 'e) simple_pool" where
  "sp_queue_all [] p = Inr p"
| "sp_queue_all (x # xs) p =
     (case sp_queue x p of Inl f \<Rightarrow> Inl f | Inr p' \<Rightarrow> sp_queue_all xs p')"

text \<open>
  \<^verbatim>\<open>std::optional<T> getNextItem(...)\<close>: wait on the signal; under the lock, if the deque is
  not empty, move the front item out, pop it and return it; otherwise return empty.
\<close>

definition getNextItem :: "('a, 'e) simple_pool \<Rightarrow> 'a option \<times> ('a, 'e) simple_pool" where
  "getNextItem p =
     (case try_acquire_for (sp_signal p) of
        (False, s) \<Rightarrow> (None, p\<lparr>sp_signal := s\<rparr>)
      | (True, s) \<Rightarrow>
          (let p1 = p\<lparr>sp_signal := s\<rparr>
           in if sp_items p1 \<noteq> []
              then (Some (hd (sp_items p1)), p1\<lparr>sp_items := tl (sp_items p1)\<rparr>)
              else (None, p1)))"

text \<open>
  The consumer role calling \<open>getNextItem\<close> \<open>n\<close> times in a row; the result lists the
  items it got, in the order it got them.
\<close>

fun sp_drain :: "nat \<Rightarrow> ('a, 'e) simple_pool \<Rightarrow> 'a list \<times> ('a, 'e) simple_pool" where
  "sp_drain 0 p = ([], p)"
| "sp_drain (Suc n) p =
     (case getNextItem p of
        (None, p') \<Rightarrow> sp_drain n p'
      | (Some x, p') \<Rightarrow> (let r = sp_drain n p' in (x # fst r, snd r)))"

text \<open>
  Calls on one pool in any interleaving: \<open>Append x\<close> is a producer calling
  \<open>queue(x)\<close>, \<open>Extract\<close> the consumer role calling \<open>getNextItem\<close>. The run
  answers the items the consumer got, in the order it got them; \<open>appended\<close> lists
  the items the producers appended, in the order of their calls.
\<close>

datatype 'a queue_op = Append 'a | Extract

primrec appended :: "'a queue_op list \<Rightarrow> 'a list" where
  "appended [] = []"
| "appended (a # ops) = (case a of Append x \<Rightarrow> x # appended ops | Extract \<Rightarrow> appended ops)"

fun sp_run ::
  "'a queue_op list \<Rightarrow> ('a, 'e) simple_pool \<Rightarrow> failure + ('a list \<times> ('a, 'e) simple_pool)" where
  "sp_run [] p = Inr ([], p)"
| "sp_run (Append x # ops) p =
     (case sp_queue x p of Inl f \<Rightarrow> Inl f | Inr p1 \<Rightarrow> sp_run ops p1)"
| "sp_run (Extract # ops) p =
     (case getNextItem p of
        (None, p1) \<Rightarrow> sp_run ops p1
      | (Some y, p1) \<Rightarrow>
          (case sp_run ops p1 of Inl f \<Rightarrow> Inl f | Inr r \<Rightarrow> Inr (y # fst r, snd r)))"

text \<open>
  One of the threads of the pool. The block inside \<^verbatim>\<open>try\<close>:
  \<^verbatim>\<open>if (auto item = getNextItem(signalWaitInterval); item && !st.stop_requested())
    callback(std::move(*item));\<close>
\<close>

definition sp_try_block ::
  "bool \<Rightarrow> ('a, 'e) simple_pool \<Rightarrow> 'e \<Rightarrow> failure option \<times> ('a, 'e) simple_pool \<times> 'e" where
  "sp_try_block stop p env =
     (case getNextItem p of
        (Some item, p1) \<Rightarrow>
          (if \<not> stop
           then (let r = invoke (sp_callback p1) item env in (fst r, p1, snd r))
           else (None, p1, env))
      | (None, p1) \<Rightarrow> (None, p1, env))"

fun sp_processor ::
  "(bool \<times> bool) list \<Rightarrow> ('a, 'e) simple_pool \<Rightarrow> 'e \<Rightarrow> thread_status \<times> ('a, 'e) simple_pool \<times> 'e" where
  "sp_processor [] p env = (Looping, p, env)"
| "sp_processor ((stop1, stop2) # sched) p env =
     (if stop1 then (Returned, p, env)
      else case catch_all (sp_try_block stop2 p env) of
             (Some f, p', env') \<Rightarrow> (Terminated f, p', env')
           | (None, p', env') \<Rightarrow> sp_processor sched p' env')"


section \<open>basic_pool\<close>

text \<open>
  The shared-queue pool: one deque, one signal and one callback for all its threads.
  \<open>bp_workers\<close> is \<^verbatim>\<open>workers.size()\<close>, the number of threads.
\<close>

record ('a, 'e) basic_pool =
  bp_queueCounter :: "64 word"
  bp_workers :: nat
  bp_callback :: "('a, 'e) callback"
  bp_signal :: counting_semaphore
  bp_items :: "'a list"




text \<open>
  The block inside \<^verbatim>\<open>try\<close> of each thread of the pool, the same as in basic_worker.
\<close>

definition bp_try_block ::
  "bool \<Rightarrow> ('a, 'e) basic_pool \<Rightarrow> 'e \<Rightarrow> failure option \<times> ('a, 'e) basic_pool \<times> 'e" where
  "bp_try_block stop p env =
     (case try_acquire_for (bp_signal p) of
        (False, s) \<Rightarrow> (None, p\<lparr>bp_signal := s\<rparr>, env)
      | (True, s) \<Rightarrow>
          (let p1 = p\<lparr>bp_signal := s\<rparr>
           in if bp_items p1 \<noteq> [] \<and> \<not> stop
              then (let item = hd (bp_items p1);
                        p2 = p1\<lparr>bp_items := tl (bp_items p1)\<rparr>;
                        r = invoke (bp_callback p2) item env
                    in (fst r, p2, snd r))
              else (None, p1, env)))"

text \<open>The loop of one thread of the pool, while the other threads do nothing.\<close>

fun bp_processor ::
  "(bool \<times> bool) list \<Rightarrow> ('a, 'e) basic_pool \<Rightarrow> 'e \<Rightarrow> thread_status \<times> ('a, 'e) basic_pool \<times> 'e" where
  "bp_processor [] p env = (Looping, p, env)"
| "bp_processor ((stop1, stop2) # sched) p env =
     (if stop1 then (Returned, p, env)
      else case catch_all (bp_try_block stop2 p env) of
             (Some f, p', env') \<Rightarrow> (Terminated f, p', env')
           | (None, p', env') \<Rightarrow> bp_processor sched p' env')"


section \<open>periodic_worker\<close>

record 'e periodic_worker =
  invokeCounter :: "64 word"
  pw_signal :: counting_semaphore
  pw_callback :: "(unit, 'e) callback"

text \<open>
  The block inside \<^verbatim>\<open>try\<close>:
  \<^verbatim>\<open>auto _ = signal.try_acquire_for(invokePeriod);
  if (!st.stop_requested()) { callback(); invokeCounter++; }\<close>
\<close>

definition pw_try_block ::
  "bool \<Rightarrow> 'e periodic_worker \<Rightarrow> 'e \<Rightarrow> failure option \<times> 'e periodic_worker \<times> 'e" where
  "pw_try_block stop w env =
     (let w1 = w\<lparr>pw_signal := snd (try_acquire_for (pw_signal w))\<rparr>
      in if \<not> stop
         then (case invoke (pw_callback w1) () env of
                 (Some f, env') \<Rightarrow> (Some f, w1, env')
               | (None, env') \<Rightarrow> (None, w1\<lparr>invokeCounter := invokeCounter w1 + 1\<rparr>, env'))
         else (None, w1, env))"

fun pw_processor ::
  "(bool \<times> bool) list \<Rightarrow> 'e periodic_worker \<Rightarrow> 'e \<Rightarrow> thread_status \<times> 'e periodic_worker \<times> 'e" where
  "pw_processor [] w env = (Looping, w, env)"
| "pw_processor ((stop1, stop2) # sched) w env =
     (if stop1 then (Returned, w, env)
      else case catch_all (pw_try_block stop2 w env) of
             (Some f, w', env') \<Rightarrow> (Terminated f, w', env')
           | (None, w', env') \<Rightarrow> pw_processor sched w' env')"

section \<open>resource_pool\<close>

text \<open>
  \<^verbatim>\<open>checkout\<close> returns \<^verbatim>\<open>T&&\<close>, a reference to an element of the deque, so the deque is
  modelled with the identity of its elements: \<open>elements\<close> holds every element object
  the deque has constructed, in the order of construction, \<open>Some v\<close> while the object is
  alive and \<open>None\<close> once \<^verbatim>\<open>pop_front\<close> has destroyed it; \<open>head\<close> is the position of the
  front element. A reference to an element is its position in \<open>elements\<close>
  (\<^verbatim>\<open>push_back\<close> and \<^verbatim>\<open>pop_front\<close> on a deque leave the references to the other elements
  valid). The deque as a sequence is \<open>drop head elements\<close>.
\<close>

record 'a resource_pool =
  elements :: "'a option list"
  head :: nat

type_synonym reference = nat

definition resource_pool_new :: "'a resource_pool" where
  "resource_pool_new = \<lparr>elements = [], head = 0\<rparr>"

definition pool_empty :: "'a resource_pool \<Rightarrow> bool" where
  "pool_empty p \<longleftrightarrow> length (elements p) \<le> head p"

definition pool_size :: "'a resource_pool \<Rightarrow> nat" where
  "pool_size p = length (elements p) - head p"

definition pool_front :: "'a resource_pool \<Rightarrow> reference" where
  "pool_front p = head p"

definition pool_pop_front :: "'a resource_pool \<Rightarrow> 'a resource_pool" where
  "pool_pop_front p = p\<lparr>elements := (elements p)[head p := None], head := Suc (head p)\<rparr>"

definition pool_push_back :: "'a \<Rightarrow> 'a resource_pool \<Rightarrow> 'a resource_pool" where
  "pool_push_back x p = p\<lparr>elements := elements p @ [Some x]\<rparr>"

text \<open>Reading through a reference: the object it designates, if that object is alive.\<close>

definition deref :: "'a resource_pool \<Rightarrow> reference \<Rightarrow> 'a option" where
  "deref p r = (if r < length (elements p) then elements p ! r else None)"

text \<open>The items the pool holds, front first.\<close>

definition pool_items :: "'a resource_pool \<Rightarrow> 'a list" where
  "pool_items p = map the (drop (head p) (elements p))"

text \<open>Every element from the front on is alive.\<close>

definition pool_wf :: "'a resource_pool \<Rightarrow> bool" where
  "pool_wf p \<longleftrightarrow> head p \<le> length (elements p) \<and> list_all (\<lambda>c. c \<noteq> None) (drop (head p) (elements p))"

text \<open>
  \<^verbatim>\<open>if (lock; !_pool.empty()) return _pool.size(); return size_t(0);\<close>
\<close>

definition getCapacity :: "'a resource_pool \<Rightarrow> nat" where
  "getCapacity p = (if \<not> pool_empty p then pool_size p else 0)"

text \<open>
  \<^verbatim>\<open>[[nodiscard]] T&& checkout() {
    if (lock; !_pool.empty()) {
      RunOnEnd roe([&]() { _pool.pop_front(); });
      return std::move(_pool.front());
    }
    throw std::runtime_error("Empty pool; add something first!");
  }\<close>
  The operand of \<^verbatim>\<open>return\<close> is evaluated first and gives the reference to the front
  element; then the scope is left and \<open>roe\<close> runs \<^verbatim>\<open>pop_front\<close>; then the caller gets
  the reference. The result is the reference together with the pool as the caller
  finds it.
\<close>

text \<open>
  Modelled from the spec: \<^verbatim>\<open>RunOnEnd\<close> (siddiqsoft/RunOnEnd.hpp is not among the
  sources), the scope guard that the spec describes as a generic "run this code on scope
  exit" primitive: \<open>RunOnEnd f body\<close> evaluates the body of the scope and then runs \<open>f\<close>
  on the state the body has left.
\<close>

definition RunOnEnd :: "('s \<Rightarrow> 's) \<Rightarrow> ('s \<Rightarrow> 'r \<times> 's) \<Rightarrow> 's \<Rightarrow> 'r \<times> 's" where
  "RunOnEnd f body s = (let r = body s in (fst r, f (snd r)))"

definition checkout :: "'a resource_pool \<Rightarrow> (failure + reference) \<times> 'a resource_pool" where
  "checkout p =
     (if \<not> pool_empty p
      then RunOnEnd pool_pop_front (\<lambda>q. (Inr (pool_front q), q)) p
      else (Inl (Runtime_error ''Empty pool; add something first!''), p))"

text \<open>
  \<^verbatim>\<open>void checkin(T&& rsrc) { if (lock; true) { _pool.push_back(std::move(rsrc)); } }\<close>
\<close>

definition checkin :: "'a \<Rightarrow> 'a resource_pool \<Rightarrow> 'a resource_pool" where
  "checkin rsrc p = pool_push_back rsrc p"

section \<open>Constraints on the payload type\<close>

text \<open>
  What a \<^verbatim>\<open>requires\<close> clause asks of the payload type \<open>T\<close>: the two concepts the sources
  use, as properties of the type.
\<close>

record type_traits =
  move_constructible :: bool
  copy_constructible :: bool

text \<open>
  \<^verbatim>\<open>template <typename T, uint16_t Pri = 0>
    requires ((Pri >= -10) && (Pri <= 10)) && std::copy_constructible<T> && std::move_constructible<T>
  struct basic_worker\<close>
\<close>

definition basic_worker_requires :: "16 word \<Rightarrow> type_traits \<Rightarrow> bool" where
  "basic_worker_requires Pri T \<longleftrightarrow>
     ((uint Pri \<ge> - 10) \<and> (uint Pri \<le> 10)) \<and> copy_constructible T \<and> move_constructible T"

text \<open>
  \<^verbatim>\<open>template <typename T, uint16_t Pri = 0>
    requires((Pri >= -10) && (Pri <= 10)) && std::move_constructible<T> struct simple_worker\<close>
\<close>

definition simple_worker_requires :: "16 word \<Rightarrow> type_traits \<Rightarrow> bool" where
  "simple_worker_requires Pri T \<longleftrightarrow>
     ((uint Pri \<ge> - 10) \<and> (uint Pri \<le> 10)) \<and> move_constructible T"

text \<open>
  \<^verbatim>\<open>struct nonCopyableObject\<close> of tests/basic_worker.cpp (test3): the copy constructor and
  the copy assignment are deleted, the move constructor and the move assignment are
  defaulted.
\<close>

definition nonCopyableObject :: type_traits where
  "nonCopyableObject = \<lparr>move_constructible = True, copy_constructible = False\<rparr>"

section \<open>Helper lemmas: the signal and the queue operations\<close>

lemma bw_queue_below_max:
  "counter (bw_signal w) < sem_max (bw_signal w) \<Longrightarrow>
   bw_queue x w =
     Inr (w\<lparr>bw_items := bw_items w @ [x],
            bw_signal := (bw_signal w)\<lparr>counter := counter (bw_signal w) + 1\<rparr>\<rparr>)"
  by (simp add: bw_queue_def release_def Let_def)

lemma bw_queue_at_max:
  "sem_max (bw_signal w) \<le> counter (bw_signal w) \<Longrightarrow> bw_queue x w = Inl Undefined_behaviour"
  by (simp add: bw_queue_def release_def Let_def)

lemma bw_queue_all_replicate:
  "counter (bw_signal w) \<le> sem_max (bw_signal w) \<Longrightarrow>
   bw_queue_all (replicate n x) w =
     (if counter (bw_signal w) + n \<le> sem_max (bw_signal w)
      then Inr (w\<lparr>bw_items := bw_items w @ replicate n x,
                  bw_signal := (bw_signal w)\<lparr>counter := counter (bw_signal w) + n\<rparr>\<rparr>)
      else Inl Undefined_behaviour)"
proof (induction n arbitrary: w)
  case 0
  then show ?case by simp
next
  case (Suc n)
  show ?case
  proof (cases "counter (bw_signal w) < sem_max (bw_signal w)")
    case True
    then show ?thesis
      by (simp add: bw_queue_below_max Suc.IH replicate_app_Cons_same)
  next
    case False
    then show ?thesis
      using Suc.prems by (simp add: bw_queue_at_max)
  qed
qed

lemma sw_queue_Inr:
  "sw_queue x w = Inr w' \<Longrightarrow> sw_items w' = sw_items w @ [x]"
  by (auto simp: sw_queue_def release_def Let_def split: if_splits)

lemma sp_queue_Inr:
  "sp_queue x p = Inr p' \<Longrightarrow>
   sp_items p' = sp_items p @ [x] \<and> counter (sp_signal p') = counter (sp_signal p) + 1"
  by (auto simp: sp_queue_def release_def Let_def split: if_splits)

lemma sp_queue_all_Inr:
  "sp_queue_all xs p = Inr p' \<Longrightarrow>
   sp_items p' = sp_items p @ xs \<and> counter (sp_signal p') = counter (sp_signal p) + length xs"
proof (induction xs arbitrary: p)
  case Nil
  then show ?case by simp
next
  case (Cons x xs)
  then obtain q where q: "sp_queue x p = Inr q" and rest: "sp_queue_all xs q = Inr p'"
    by (auto split: sum.splits)
  from Cons.IH [OF rest] sp_queue_Inr [OF q] show ?case by simp
qed

lemma getNextItem_Some:
  "getNextItem p = (Some y, p') \<Longrightarrow>
   sp_items p = y # sp_items p' \<and> counter (sp_signal p) = Suc (counter (sp_signal p'))"
  by (auto simp: getNextItem_def try_acquire_for_def Let_def split: if_splits)

lemma getNextItem_cases:
  "getNextItem p =
     (if 0 < counter (sp_signal p)
      then (if sp_items p \<noteq> []
            then (Some (hd (sp_items p)),
                  p\<lparr>sp_signal := (sp_signal p)\<lparr>counter := counter (sp_signal p) - 1\<rparr>,
                    sp_items := tl (sp_items p)\<rparr>)
            else (None, p\<lparr>sp_signal := (sp_signal p)\<lparr>counter := counter (sp_signal p) - 1\<rparr>\<rparr>))
      else (None, p\<lparr>sp_signal := sp_signal p\<rparr>))"
  by (simp add: getNextItem_def try_acquire_for_def Let_def)

lemma sp_drain_prefix:
  "fst (sp_drain n p) = take (min n (counter (sp_signal p))) (sp_items p)"
proof (induction n arbitrary: p)
  case 0
  then show ?case by simp
next
  case (Suc n)
  show ?case
  proof (cases "0 < counter (sp_signal p)")
    case False
    then show ?thesis by (simp add: getNextItem_cases Suc.IH)
  next
    case True
    show ?thesis
    proof (cases "sp_items p")
      case Nil
      then show ?thesis using True by (simp add: getNextItem_cases Suc.IH)
    next
      case (Cons y ys)
      then show ?thesis using True
        by (cases "counter (sp_signal p)") (simp_all add: getNextItem_cases Suc.IH Let_def)
    qed
  qed
qed

lemma getNextItem_None:
  "getNextItem p = (None, p') \<Longrightarrow> sp_items p' = sp_items p"
  by (auto simp: getNextItem_def try_acquire_for_def Let_def split: if_splits)

lemma sp_run_fifo:
  "sp_run ops p = Inr (out, p') \<Longrightarrow> out @ sp_items p' = sp_items p @ appended ops"
proof (induction ops p arbitrary: out p' rule: sp_run.induct)
  case (1 p)
  then show ?case by simp
next
  case (2 x ops p)
  from "2.prems" obtain p1 where q: "sp_queue x p = Inr p1" and rest: "sp_run ops p1 = Inr (out, p')"
    by (auto split: sum.splits)
  from "2.IH" [OF q rest] sp_queue_Inr [OF q] show ?case by simp
next
  case (3 ops p)
  show ?case
  proof (cases "getNextItem p")
    case (Pair r p1)
    show ?thesis
    proof (cases r)
      case None
      with Pair "3.prems" have rest: "sp_run ops p1 = Inr (out, p')" by simp
      from "3.IH"(1) [OF Pair [symmetric] None rest] getNextItem_None [of p p1] Pair None
      show ?thesis by simp
    next
      case (Some y)
      with Pair "3.prems" obtain out' where rest: "sp_run ops p1 = Inr (out', p')"
        and out: "out = y # out'"
        by (auto split: sum.splits)
      from "3.IH"(2) [OF Pair [symmetric] Some rest] getNextItem_Some [of p y p1] Pair Some out
      show ?thesis by simp
    qed
  qed
qed

lemma bw_queue_Inr:
  "bw_queue x w = Inr w' \<Longrightarrow> bw_items w' = bw_items w @ [x]"
  by (auto simp: bw_queue_def release_def Let_def split: if_splits)

section \<open>Helper lemmas: round-robin routing\<close>

lemma upt_shift:
  "map ((!) (x # xs)) (filter P [0..<Suc (length xs)])
     = (if P 0 then [x] else []) @ map ((!) xs) (filter (\<lambda>k. P (Suc k)) [0..<length xs])"
proof -
  have "[0..<Suc (length xs)] = 0 # map Suc [0..<length xs]"
    by (simp only: map_Suc_upt upt_conv_Cons [of 0 "Suc (length xs)"])
  then show ?thesis
    by (simp add: filter_map comp_def)
qed

lemma nextWorkerIndex_mod:
  assumes "rr_workersSize p = of_nat n" and "0 < n" and "n < 2 ^ 64"
  shows "nextWorkerIndex p = unat (rr_queueCounter p) mod n"
proof -
  have u: "unat (of_nat n :: 64 word) = n"
    using assms(3) by (simp add: unat_of_nat)
  then have nz: "(of_nat n :: 64 word) \<noteq> 0"
    using assms(2) by (metis unat_0 less_numeral_extra(3))
  show ?thesis
    using assms(1) nz u by (simp add: nextWorkerIndex_def unat_mod)
qed

lemma rr_queue_Inr:
  assumes q: "rr_queue x p = Inr p'"
    and sz: "rr_workersSize p = of_nat (length (rr_workers p))"
    and pos: "0 < length (rr_workers p)"
    and bnd: "length (rr_workers p) < 2 ^ 64"
  shows "rr_queueCounter p' = rr_queueCounter p + 1"
    and "rr_workersSize p' = rr_workersSize p"
    and "length (rr_workers p') = length (rr_workers p)"
    and "j < length (rr_workers p) \<Longrightarrow>
         sw_items (rr_workers p' ! j) =
           sw_items (rr_workers p ! j) @
             (if unat (rr_queueCounter p + 1) mod length (rr_workers p) = j then [x] else [])"
proof -
  let ?p1 = "p\<lparr>rr_queueCounter := rr_queueCounter p + 1\<rparr>"
  let ?i = "unat (rr_queueCounter p + 1) mod length (rr_workers p)"
  have i: "nextWorkerIndex ?p1 = ?i"
    using nextWorkerIndex_mod [of ?p1 "length (rr_workers p)"] sz pos bnd by simp
  have lt: "?i < length (rr_workers p)"
    using pos by simp
  from q i lt obtain w where w: "sw_queue x (rr_workers p ! ?i) = Inr w"
    and p': "p' = ?p1\<lparr>rr_workers := (rr_workers p)[?i := w]\<rparr>"
    by (auto simp: rr_queue_def Let_def split: sum.splits)
  show "rr_queueCounter p' = rr_queueCounter p + 1" using p' by simp
  show "rr_workersSize p' = rr_workersSize p" using p' by simp
  show "length (rr_workers p') = length (rr_workers p)" using p' by simp
  show "sw_items (rr_workers p' ! j) =
           sw_items (rr_workers p ! j) @ (if ?i = j then [x] else [])"
    if "j < length (rr_workers p)"
    using that p' sw_queue_Inr [OF w] by (simp add: nth_list_update)
qed

lemma rr_queue_all_Inr:
  assumes "rr_queue_all xs p = Inr p'"
    and "rr_workersSize p = of_nat (length (rr_workers p))"
    and "0 < length (rr_workers p)"
    and "length (rr_workers p) < 2 ^ 64"
    and "j < length (rr_workers p)"
  shows "sw_items (rr_workers p' ! j) =
           sw_items (rr_workers p ! j) @
             map ((!) xs)
               (filter (\<lambda>k. unat (rr_queueCounter p + of_nat (k + 1)) mod length (rr_workers p) = j)
                  [0..<length xs])"
  using assms
proof (induction xs arbitrary: p)
  case Nil
  then show ?case by simp
next
  case (Cons x xs)
  from Cons.prems(1) obtain q where q: "rr_queue x p = Inr q" and rest: "rr_queue_all xs q = Inr p'"
    by (auto split: sum.splits)
  note step = rr_queue_Inr [OF q Cons.prems(2) Cons.prems(3) Cons.prems(4)]
  have ih: "sw_items (rr_workers p' ! j) =
           sw_items (rr_workers q ! j) @
             map ((!) xs)
               (filter (\<lambda>k. unat (rr_queueCounter q + of_nat (k + 1)) mod length (rr_workers q) = j)
                  [0..<length xs])"
    using Cons.IH [OF rest] step(1-3) Cons.prems(2-5) by simp
  have cnt: "rr_queueCounter p + 1 + of_nat (k + 1) = rr_queueCounter p + of_nat (Suc k + 1)" for k
    by simp
  have shift: "map ((!) (x # xs))
               (filter (\<lambda>k. unat (rr_queueCounter p + of_nat (k + 1)) mod length (rr_workers p) = j)
                  [0..<length (x # xs)])
        = (if unat (rr_queueCounter p + 1) mod length (rr_workers p) = j then [x] else []) @
          map ((!) xs)
               (filter (\<lambda>k. unat (rr_queueCounter p + of_nat (Suc k + 1)) mod length (rr_workers p) = j)
                  [0..<length xs])"
    using upt_shift [of x xs
          "\<lambda>k. unat (rr_queueCounter p + of_nat (k + 1)) mod length (rr_workers p) = j"]
    by (simp only: list.size(4) Suc_eq_plus1 [symmetric]) simp
  show ?case
    unfolding ih step(1) step(3) step(4) [OF Cons.prems(5)] cnt shift
    by (simp only: append_assoc)
qed

lemma roundrobin_pool_new_size:
  "rr_workersSize (roundrobin_pool_new N hw mx c)
     = of_nat (length (rr_workers (roundrobin_pool_new N hw mx c)))
   \<and> length (rr_workers (roundrobin_pool_new N hw mx c)) < 2 ^ 64
   \<and> length (rr_workers (roundrobin_pool_new N hw mx c)) = (if 0 < N then unat N else unat hw)
   \<and> rr_queueCounter (roundrobin_pool_new N hw mx c) = 0"
proof -
  have "unat N < 2 ^ 64"
    using unsigned_less [of N, where 'a = nat] by (simp add: order_less_trans [where y = "2 ^ 16"])
  moreover have "unat hw < 2 ^ 64"
    using unsigned_less [of hw, where 'a = nat] by (simp add: order_less_trans [where y = "2 ^ 32"])
  ultimately show ?thesis
    by (simp add: roundrobin_pool_new_def Let_def)
qed

lemma roundrobin_pool_new_items:
  "j < length (rr_workers (roundrobin_pool_new N hw mx c)) \<Longrightarrow>
   sw_items (rr_workers (roundrobin_pool_new N hw mx c) ! j) = []"
  by (simp add: roundrobin_pool_new_def Let_def simple_worker_new_def)

lemma rr_queue_all_new:
  assumes "rr_queue_all xs (roundrobin_pool_new N hw mx c) = Inr q"
    and "j < (if 0 < N then unat N else unat hw)"
  shows "sw_items (rr_workers q ! j) =
           map ((!) xs)
             (filter (\<lambda>k. (k + 1) mod 2 ^ 64 mod (if 0 < N then unat N else unat hw) = j)
                [0..<length xs])"
proof -
  let ?p = "roundrobin_pool_new N hw mx c"
  note sz = roundrobin_pool_new_size [of N hw mx c]
  have len: "length (rr_workers ?p) = (if 0 < N then unat N else unat hw)"
    using sz by blast
  have j: "j < length (rr_workers ?p)"
    using assms(2) len by simp
  have pos: "0 < length (rr_workers ?p)"
    by (rule order.strict_trans1 [OF le0 j])
  have cnt: "unat (rr_queueCounter ?p + of_nat (k + 1)) = (k + 1) mod 2 ^ 64" for k
    using sz by (simp add: unat_of_nat del: of_nat_add of_nat_Suc)
  have "sw_items (rr_workers q ! j) =
           sw_items (rr_workers ?p ! j) @
             map ((!) xs)
               (filter (\<lambda>k. unat (rr_queueCounter ?p + of_nat (k + 1)) mod length (rr_workers ?p) = j)
                  [0..<length xs])"
    using rr_queue_all_Inr [OF assms(1) _ pos _ j] sz by blast
  then show ?thesis
    unfolding cnt roundrobin_pool_new_items [OF j] len by simp
qed

section \<open>Helper lemmas: the processor threads\<close>

lemma bw_processor_never_terminated:
  "fst (bw_processor sched w env) \<noteq> Terminated g"
  by (induction sched w env rule: bw_processor.induct)
     (auto simp: catch_all_def split: prod.splits option.splits)

lemma pw_processor_never_terminated:
  "fst (pw_processor sched w env) \<noteq> Terminated g"
  by (induction sched w env rule: pw_processor.induct)
     (auto simp: catch_all_def split: prod.splits option.splits)

lemma bw_try_block_raise:
  assumes "0 < counter (bw_signal w)" and "bw_items w \<noteq> []"
    and "invoke (bw_callback w) (hd (bw_items w)) env = (Some f, env')"
  shows "bw_try_block False w env =
           (Some f,
            w\<lparr>bw_signal := (bw_signal w)\<lparr>counter := counter (bw_signal w) - 1\<rparr>,
              bw_items := tl (bw_items w)\<rparr>,
            env')"
  using assms by (simp add: bw_try_block_def try_acquire_for_def Let_def)

lemma pw_try_block_raise:
  assumes "invoke (pw_callback w) () env = (Some f, env')"
  shows "pw_try_block False w env =
           (Some f, w\<lparr>pw_signal := snd (try_acquire_for (pw_signal w))\<rparr>, env')"
  using assms by (simp add: pw_try_block_def Let_def)













lemma sw_processor_never_terminated:
  "fst (sw_processor sched w env) \<noteq> Terminated g"
  by (induction sched w env rule: sw_processor.induct)
     (auto simp: catch_all_def split: prod.splits option.splits)

lemma sp_processor_never_terminated:
  "fst (sp_processor sched w env) \<noteq> Terminated g"
  by (induction sched w env rule: sp_processor.induct)
     (auto simp: catch_all_def split: prod.splits option.splits)

lemma bp_processor_never_terminated:
  "fst (bp_processor sched w env) \<noteq> Terminated g"
  by (induction sched w env rule: bp_processor.induct)
     (auto simp: catch_all_def split: prod.splits option.splits)

lemma sw_try_block_raise:
  assumes "0 < counter (sw_signal w)" and "sw_items w \<noteq> []"
    and "invoke (sw_callback w) (hd (sw_items w)) env = (Some f, env')"
  shows "sw_try_block False w env =
           (Some f,
            w\<lparr>sw_signal := (sw_signal w)\<lparr>counter := counter (sw_signal w) - 1\<rparr>,
              sw_items := tl (sw_items w)\<rparr>,
            env')"
  using assms by (simp add: sw_try_block_def sw_getNextItem_def try_acquire_for_def Let_def)

lemma sp_try_block_raise:
  assumes "0 < counter (sp_signal p)" and "sp_items p \<noteq> []"
    and "invoke (sp_callback p) (hd (sp_items p)) env = (Some f, env')"
  shows "sp_try_block False p env =
           (Some f,
            p\<lparr>sp_signal := (sp_signal p)\<lparr>counter := counter (sp_signal p) - 1\<rparr>,
              sp_items := tl (sp_items p)\<rparr>,
            env')"
  using assms by (simp add: sp_try_block_def getNextItem_def try_acquire_for_def Let_def)

lemma bp_try_block_raise:
  assumes "0 < counter (bp_signal p)" and "bp_items p \<noteq> []"
    and "invoke (bp_callback p) (hd (bp_items p)) env = (Some f, env')"
  shows "bp_try_block False p env =
           (Some f,
            p\<lparr>bp_signal := (bp_signal p)\<lparr>counter := counter (bp_signal p) - 1\<rparr>,
              bp_items := tl (bp_items p)\<rparr>,
            env')"
  using assms by (simp add: bp_try_block_def try_acquire_for_def Let_def)

section \<open>Helper lemmas: the resource pool\<close>

lemma checkout_empty:
  "getCapacity p = 0 \<Longrightarrow>
   checkout p = (Inl (Runtime_error ''Empty pool; add something first!''), p)"
  by (auto simp: checkout_def getCapacity_def pool_empty_def pool_size_def split: if_splits)

lemma checkout_nonempty:
  "\<not> pool_empty p \<Longrightarrow>
   checkout p = (Inr (head p), pool_pop_front p)
   \<and> deref (pool_pop_front p) (head p) = None
   \<and> getCapacity (pool_pop_front p) = getCapacity p - 1"
  by (simp add: checkout_def RunOnEnd_def pool_front_def pool_pop_front_def deref_def
      pool_empty_def getCapacity_def pool_size_def)

lemma checkout_checkin_result:
  "head p \<le> length (elements p) \<Longrightarrow>
   checkout (checkin x p) =
     (Inr (head p), p\<lparr>elements := (elements p @ [Some x])[head p := None], head := Suc (head p)\<rparr>)"
  by (simp add: checkout_def checkin_def RunOnEnd_def pool_pop_front_def pool_push_back_def
      pool_front_def pool_empty_def)

lemma deref_checkin_front:
  assumes "pool_wf p"
  shows "deref (checkin x p) (head p) = Some (hd (pool_items p @ [x]))"
proof (cases "head p < length (elements p)")
  case True
  have "\<forall>n<length (drop (head p) (elements p)). drop (head p) (elements p) ! n \<noteq> None"
    using assms by (simp only: pool_wf_def list_all_length) simp
  then have "0 < length (drop (head p) (elements p)) \<longrightarrow> drop (head p) (elements p) ! 0 \<noteq> None"
    by blast
  then have alive: "elements p ! head p \<noteq> None"
    using True by simp
  have "hd (pool_items p @ [x]) = the (elements p ! head p)"
    using True by (simp add: pool_items_def hd_append hd_map hd_drop_conv_nth)
  then show ?thesis
    using True alive by (auto simp: deref_def checkin_def pool_push_back_def nth_append)
next
  case False
  then have "head p = length (elements p)"
    using assms by (simp add: pool_wf_def)
  then show ?thesis
    by (simp add: deref_def checkin_def pool_push_back_def pool_items_def)
qed

lemma pool_items_after_pair:
  assumes "head p \<le> length (elements p)"
  shows "pool_items (snd (checkout (checkin x p))) = tl (pool_items p @ [x])"
proof (cases "head p < length (elements p)")
  case True
  have a: "drop (Suc (head p)) ((elements p @ [Some x])[head p := None])
           = drop (Suc (head p)) (elements p) @ [Some x]"
    using True by (simp add: drop_update_cancel)
  have b: "drop (head p) (elements p) \<noteq> []"
    using True by simp
  have c: "tl (map the (drop (head p) (elements p)) @ [x])
           = map the (drop (Suc (head p)) (elements p)) @ [x]"
    using b by (simp add: drop_Suc map_tl flip: tl_drop)
  show ?thesis
    using assms a c by (simp add: checkout_checkin_result pool_items_def)
next
  case False
  then have "head p = length (elements p)"
    using assms by simp
  then show ?thesis
    using assms by (simp add: checkout_checkin_result pool_items_def)
qed

lemma getCapacity_after_pair:
  assumes "head p \<le> length (elements p)"
  shows "getCapacity (snd (checkout (checkin x p))) = getCapacity p"
  using assms by (simp add: checkout_checkin_result getCapacity_def pool_empty_def pool_size_def)

section \<open>Round-robin routing\<close>

text \<open>
  C1, as the specification states it, fails: the claim routes item \<open>k\<close> (0-indexed) to
  worker \<open>k mod N\<close>. On a fresh pool of two workers the first item (\<open>k = 0\<close>) goes to
  worker 1 and worker 0 stays empty, because \<open>queue\<close> increments the counter before
  \<open>nextWorkerIndex\<close> reads it.
\<close>

theorem roundrobin_routing_counterexample:
  "rr_queue_all [10::nat] (roundrobin_pool_new 2 0 512 None :: (nat, unit) roundrobin_pool)
     = Inr \<lparr>rr_queueCounter = 1,
            rr_workers =
              [\<lparr>sw_queueCounter = 0, sw_items = [], sw_signal = \<lparr>counter = 0, sem_max = 512\<rparr>,
                sw_callback = None\<rparr>,
               \<lparr>sw_queueCounter = 1, sw_items = [10], sw_signal = \<lparr>counter = 1, sem_max = 512\<rparr>,
                sw_callback = None\<rparr>],
            rr_workersSize = 2\<rparr>"
proof -
  have r2: "replicate 2 w = [w, w]" for w :: "(nat, unit) simple_worker"
    by (simp add: numeral_2_eq_2)
  have new: "(roundrobin_pool_new 2 0 512 None :: (nat, unit) roundrobin_pool)
     = \<lparr>rr_queueCounter = 0,
        rr_workers = [simple_worker_new 512 None, simple_worker_new 512 None],
        rr_workersSize = 2\<rparr>"
    unfolding roundrobin_pool_new_def Let_def by (simp add: r2)
  show ?thesis
    unfolding new
    by (simp add: simple_worker_new_def counting_semaphore_new_def
        rr_queue_def nextWorkerIndex_def sw_queue_def release_def Let_def)
qed

text \<open>
  C1, amended: \<open>queue\<close> increments the shared counter first and routes by the incremented
  value. When a single producer enqueues the items \<open>xs\<close> and every call returns, worker
  \<open>j\<close> of a pool of \<open>N > 0\<close> workers has received, in this order and behind what it held
  before, exactly the items \<open>xs ! k\<close> with \<open>(c + k + 1) mod 2^64 mod N = j\<close>, where \<open>c\<close> is
  the counter before the first call; whatever the workers hold or have processed plays
  no part. On a freshly constructed pool that is item \<open>k\<close> to worker
  \<open>(k + 1) mod 2^64 mod N\<close>. A pool without workers computes index 0 and \<open>queue\<close>
  throws \<open>std::out_of_range\<close> from \<open>workers.at(0)\<close>.
\<close>

theorem roundrobin_routing:
  "(rr_queue_all xs p = Inr p' \<and> rr_workersSize p = of_nat (length (rr_workers p))
      \<and> 0 < length (rr_workers p) \<and> length (rr_workers p) < 2 ^ 64 \<and> j < length (rr_workers p)
    \<longrightarrow> sw_items (rr_workers p' ! j) =
           sw_items (rr_workers p ! j) @
             map ((!) xs)
               (filter (\<lambda>k. unat (rr_queueCounter p + of_nat (k + 1)) mod length (rr_workers p) = j)
                  [0..<length xs]))
   \<and> (rr_queue_all xs (roundrobin_pool_new N hw mx c) = Inr q
      \<and> i < (if 0 < N then unat N else unat hw)
    \<longrightarrow> sw_items (rr_workers q ! i) =
           map ((!) xs)
             (filter (\<lambda>k. (k + 1) mod 2 ^ 64 mod (if 0 < N then unat N else unat hw) = i)
                [0..<length xs]))
   \<and> (rr_workersSize p = 0 \<and> rr_workers p = []
    \<longrightarrow> nextWorkerIndex (p\<lparr>rr_queueCounter := rr_queueCounter p + 1\<rparr>) = 0
        \<and> rr_queue x p = Inl Out_of_range)"
proof (intro conjI impI)
  assume "rr_queue_all xs p = Inr p' \<and> rr_workersSize p = of_nat (length (rr_workers p))
      \<and> 0 < length (rr_workers p) \<and> length (rr_workers p) < 2 ^ 64 \<and> j < length (rr_workers p)"
  then show "sw_items (rr_workers p' ! j) =
           sw_items (rr_workers p ! j) @
             map ((!) xs)
               (filter (\<lambda>k. unat (rr_queueCounter p + of_nat (k + 1)) mod length (rr_workers p) = j)
                  [0..<length xs])"
    using rr_queue_all_Inr [of xs p p' j] by blast
next
  assume "rr_queue_all xs (roundrobin_pool_new N hw mx c) = Inr q
      \<and> i < (if 0 < N then unat N else unat hw)"
  then show "sw_items (rr_workers q ! i) =
           map ((!) xs)
             (filter (\<lambda>k. (k + 1) mod 2 ^ 64 mod (if 0 < N then unat N else unat hw) = i)
                [0..<length xs])"
    using rr_queue_all_new [of xs N hw mx c q i] by blast
next
  assume "rr_workersSize p = 0 \<and> rr_workers p = []"
  then show "nextWorkerIndex (p\<lparr>rr_queueCounter := rr_queueCounter p + 1\<rparr>) = 0"
    by (simp add: nextWorkerIndex_def)
next
  assume "rr_workersSize p = 0 \<and> rr_workers p = []"
  then show "rr_queue x p = Inl Out_of_range"
    by (simp add: rr_queue_def nextWorkerIndex_def Let_def)
qed

text \<open>
  Witness for C1: three items on a fresh pool of two workers. Worker 0 gets the item of
  index 1, worker 1 the items of index 0 and 2. A pool built with \<open>N = 0\<close> on a host
  whose \<open>hardware_concurrency()\<close> is 0 has no workers and \<open>queue\<close> throws.
\<close>

theorem roundrobin_routing_witness:
  "rr_queue_all [10::nat, 11, 12] (roundrobin_pool_new 2 0 512 None :: (nat, unit) roundrobin_pool)
     = Inr \<lparr>rr_queueCounter = 3,
            rr_workers =
              [\<lparr>sw_queueCounter = 1, sw_items = [11], sw_signal = \<lparr>counter = 1, sem_max = 512\<rparr>,
                sw_callback = None\<rparr>,
               \<lparr>sw_queueCounter = 2, sw_items = [10, 12], sw_signal = \<lparr>counter = 2, sem_max = 512\<rparr>,
                sw_callback = None\<rparr>],
            rr_workersSize = 2\<rparr>
   \<and> map ((!) [10::nat, 11, 12]) (filter (\<lambda>k. (k + 1) mod 2 ^ 64 mod 2 = 0) [0..<3]) = [11]
   \<and> map ((!) [10::nat, 11, 12]) (filter (\<lambda>k. (k + 1) mod 2 ^ 64 mod 2 = 1) [0..<3]) = [10, 12]
   \<and> rr_workersSize (roundrobin_pool_new 0 0 512 None :: (nat, unit) roundrobin_pool) = 0
   \<and> rr_workers (roundrobin_pool_new 0 0 512 None :: (nat, unit) roundrobin_pool) = []
   \<and> rr_queue (10::nat) (roundrobin_pool_new 0 0 512 None :: (nat, unit) roundrobin_pool)
       = Inl Out_of_range"
proof -
  let ?p = "roundrobin_pool_new 2 0 512 None :: (nat, unit) roundrobin_pool"
  let ?z = "roundrobin_pool_new 0 0 512 None :: (nat, unit) roundrobin_pool"
  let ?q = "\<lparr>rr_queueCounter = 3,
            rr_workers =
              [\<lparr>sw_queueCounter = 1, sw_items = [11::nat], sw_signal = \<lparr>counter = 1, sem_max = 512\<rparr>,
                sw_callback = (None :: (nat, unit) callback)\<rparr>,
               \<lparr>sw_queueCounter = 2, sw_items = [10, 12], sw_signal = \<lparr>counter = 2, sem_max = 512\<rparr>,
                sw_callback = None\<rparr>],
            rr_workersSize = 2\<rparr>"
  have r2: "replicate 2 w = [w, w]" for w :: "(nat, unit) simple_worker"
    by (simp add: numeral_2_eq_2)
  have new: "?p = \<lparr>rr_queueCounter = 0,
        rr_workers = [simple_worker_new 512 None, simple_worker_new 512 None],
        rr_workersSize = 2\<rparr>"
    unfolding roundrobin_pool_new_def Let_def by (simp add: r2)
  have run: "rr_queue_all [10::nat, 11, 12] ?p = Inr ?q"
    unfolding new
    by (simp add: simple_worker_new_def counting_semaphore_new_def
        rr_queue_def nextWorkerIndex_def sw_queue_def release_def Let_def)
  have zero: "rr_workersSize ?z = 0 \<and> rr_workers ?z = []"
    by (simp add: roundrobin_pool_new_def Let_def)
  have u3: "[0..<3] = [0, 1, 2]"
    by (simp add: upt_conv_Cons)
  have f0: "map ((!) [10::nat, 11, 12]) (filter (\<lambda>k. (k + 1) mod 2 ^ 64 mod 2 = 0) [0..<3]) = [11]"
    unfolding u3 by simp
  have f1: "map ((!) [10::nat, 11, 12]) (filter (\<lambda>k. (k + 1) mod 2 ^ 64 mod 2 = 1) [0..<3]) = [10, 12]"
    unfolding u3 by simp
  have two: "(if 0 < (2 :: 16 word) then unat (2 :: 16 word) else unat (0 :: 32 word)) = 2"
    by simp
  have len: "length [10::nat, 11, 12] = 3"
    by simp
  have w0: "sw_items (rr_workers ?q ! 0) =
       map ((!) [10::nat, 11, 12]) (filter (\<lambda>k. (k + 1) mod 2 ^ 64 mod 2 = 0) [0..<3])"
    using roundrobin_routing [where xs = "[10::nat, 11, 12]" and N = 2 and hw = 0 and mx = 512
        and c = None and q = ?q and i = 0, THEN conjunct2, THEN conjunct1] run
    unfolding two len by simp
  have w1: "sw_items (rr_workers ?q ! 1) =
       map ((!) [10::nat, 11, 12]) (filter (\<lambda>k. (k + 1) mod 2 ^ 64 mod 2 = 1) [0..<3])"
    using roundrobin_routing [where xs = "[10::nat, 11, 12]" and N = 2 and hw = 0 and mx = 512
        and c = None and q = ?q and i = 1, THEN conjunct2, THEN conjunct1] run
    unfolding two len by simp
  have thrown: "rr_queue (10::nat) ?z = Inl Out_of_range"
    using roundrobin_routing [where p = ?z and x = "10::nat", THEN conjunct2, THEN conjunct2] zero
    by simp
  show ?thesis
    using run zero thrown w0 w1 f0 f1 by simp
qed

section \<open>Resource pool: checkout\<close>

text \<open>
  C2: on an empty pool \<open>checkout\<close> throws and leaves the pool as it was (lemma
  \<open>checkout_empty\<close>). On a pool that is not empty it removes the front element, and what
  it returns is a reference to that element, which the scope guard has destroyed by the
  time the caller holds the reference (lemma \<open>checkout_nonempty\<close>). Evaluated on the pool
  that holds the single item 7: the front element is at position 0 and holds 7 before
  the call; the call answers the reference 0; in the pool the caller finds, position 0
  holds no object. The claim has the caller receive the front item.
\<close>

theorem checkout_reference_dangles:
  "deref (checkin (7::nat) resource_pool_new) 0 = Some 7
   \<and> checkout (checkin (7::nat) resource_pool_new) = (Inr 0, \<lparr>elements = [None], head = 1\<rparr>)
   \<and> deref (snd (checkout (checkin (7::nat) resource_pool_new))) 0 = None
   \<and> checkout (resource_pool_new :: nat resource_pool)
       = (Inl (Runtime_error ''Empty pool; add something first!''), resource_pool_new)"
  by (simp add: checkout_def checkin_def RunOnEnd_def pool_pop_front_def pool_push_back_def
      pool_front_def pool_empty_def deref_def resource_pool_new_def)

section \<open>Resource pool: checkin followed by checkout\<close>

text \<open>
  C3, as the specification states it, fails: \<open>checkin\<close> appends at the back and
  \<open>checkout\<close> takes from the front, so on a pool that already holds 1 the pair
  \<open>checkin(2); checkout()\<close> takes the element that holds 1, not 2.
\<close>

theorem checkin_checkout_counterexample:
  "fst (checkout (checkin (2::nat) (checkin 1 resource_pool_new))) = Inr 0
   \<and> deref (checkin (2::nat) (checkin 1 resource_pool_new)) 0 = Some 1
   \<and> deref (checkin (2::nat) (checkin 1 resource_pool_new)) 0 \<noteq> Some 2"
  by (simp add: checkout_def checkin_def RunOnEnd_def pool_pop_front_def pool_push_back_def
      pool_front_def pool_empty_def deref_def resource_pool_new_def)

text \<open>
  C3, amended: on every well-formed pool, \<open>checkin(x)\<close> followed by \<open>checkout()\<close> does
  not throw and leaves the size of the pool what it was before the pair; the element
  \<open>checkout\<close> takes is the front of the queue after the \<open>checkin\<close>, which holds the first
  item of the old contents followed by \<open>x\<close>: \<open>x\<close> itself only when the pool was empty
  before, the item that was at the front otherwise; the pool keeps the rest in order.
\<close>

theorem checkin_checkout_fifo:
  assumes "pool_wf p"
  shows "fst (checkout (checkin x p)) = Inr (head p)
     \<and> deref (checkin x p) (head p) = Some (hd (pool_items p @ [x]))
     \<and> getCapacity (snd (checkout (checkin x p))) = getCapacity p
     \<and> pool_items (snd (checkout (checkin x p))) = tl (pool_items p @ [x])"
proof -
  have h: "head p \<le> length (elements p)"
    using assms by (simp add: pool_wf_def)
  have "fst (checkout (checkin x p)) = Inr (head p)"
    using h by (simp add: checkout_checkin_result)
  then show ?thesis
    using deref_checkin_front [OF assms] getCapacity_after_pair [OF h]
      pool_items_after_pair [OF h]
    by blast
qed

text \<open>
  Witness for C3: the pool that holds 1; the pair with \<open>x = 2\<close> takes the element that
  holds 1 and leaves a pool of size 1 that holds 2.
\<close>

theorem checkin_checkout_fifo_witness:
  "pool_wf (checkin (1::nat) resource_pool_new)
   \<and> fst (checkout (checkin 2 (checkin (1::nat) resource_pool_new))) = Inr 0
   \<and> deref (checkin 2 (checkin (1::nat) resource_pool_new)) 0 = Some 1
   \<and> getCapacity (snd (checkout (checkin 2 (checkin (1::nat) resource_pool_new)))) = 1
   \<and> pool_items (snd (checkout (checkin 2 (checkin (1::nat) resource_pool_new)))) = [2]"
proof -
  have wf: "pool_wf (checkin (1::nat) resource_pool_new)"
    by (simp add: pool_wf_def checkin_def pool_push_back_def resource_pool_new_def)
  show ?thesis
    using wf checkin_checkout_fifo [OF wf, of 2]
    by (simp add: checkin_def pool_push_back_def resource_pool_new_def pool_items_def
        getCapacity_def pool_empty_def pool_size_def)
qed

section \<open>Callback faults\<close>

text \<open>
  C4: whatever a callback throws is caught by \<open>catch (...)\<close> at the end of the loop body
  and dropped, in the worker (basic_worker, simple_worker), in each thread of a pool
  (basic_pool, simple_pool) and in the periodic worker. When the signal is acquired, an
  item is queued and the callback throws on it, the iteration ends with the thread
  still looping, the item taken from the queue, one signal consumed and the environment
  as the callback left it when it threw, and the loop goes on to its next iteration
  from that state; in the periodic worker the iteration ends with the thread still
  looping and the environment as the callback left it. For every run of any of the
  loops, with any callback, no exception ever leaves the thread function.
\<close>

theorem callback_faults_discarded:
  "(0 < counter (bw_signal w) \<and> bw_items w \<noteq> []
      \<and> invoke (bw_callback w) (hd (bw_items w)) env = (Some f, env')
    \<longrightarrow> bw_processor [(False, False)] w env
          = (Looping,
             w\<lparr>bw_signal := (bw_signal w)\<lparr>counter := counter (bw_signal w) - 1\<rparr>,
               bw_items := tl (bw_items w)\<rparr>, env')
        \<and> bw_processor ((False, False) # sched) w env
          = bw_processor sched
              (w\<lparr>bw_signal := (bw_signal w)\<lparr>counter := counter (bw_signal w) - 1\<rparr>,
                 bw_items := tl (bw_items w)\<rparr>) env')
   \<and> (0 < counter (sw_signal sw) \<and> sw_items sw \<noteq> []
      \<and> invoke (sw_callback sw) (hd (sw_items sw)) env = (Some f, env')
    \<longrightarrow> sw_processor [(False, False)] sw env
          = (Looping,
             sw\<lparr>sw_signal := (sw_signal sw)\<lparr>counter := counter (sw_signal sw) - 1\<rparr>,
                sw_items := tl (sw_items sw)\<rparr>, env')
        \<and> sw_processor ((False, False) # sched) sw env
          = sw_processor sched
              (sw\<lparr>sw_signal := (sw_signal sw)\<lparr>counter := counter (sw_signal sw) - 1\<rparr>,
                  sw_items := tl (sw_items sw)\<rparr>) env')
   \<and> (0 < counter (bp_signal bp) \<and> bp_items bp \<noteq> []
      \<and> invoke (bp_callback bp) (hd (bp_items bp)) env = (Some f, env')
    \<longrightarrow> bp_processor [(False, False)] bp env
          = (Looping,
             bp\<lparr>bp_signal := (bp_signal bp)\<lparr>counter := counter (bp_signal bp) - 1\<rparr>,
                bp_items := tl (bp_items bp)\<rparr>, env')
        \<and> bp_processor ((False, False) # sched) bp env
          = bp_processor sched
              (bp\<lparr>bp_signal := (bp_signal bp)\<lparr>counter := counter (bp_signal bp) - 1\<rparr>,
                  bp_items := tl (bp_items bp)\<rparr>) env')
   \<and> (0 < counter (sp_signal sp) \<and> sp_items sp \<noteq> []
      \<and> invoke (sp_callback sp) (hd (sp_items sp)) env = (Some f, env')
    \<longrightarrow> sp_processor [(False, False)] sp env
          = (Looping,
             sp\<lparr>sp_signal := (sp_signal sp)\<lparr>counter := counter (sp_signal sp) - 1\<rparr>,
                sp_items := tl (sp_items sp)\<rparr>, env')
        \<and> sp_processor ((False, False) # sched) sp env
          = sp_processor sched
              (sp\<lparr>sp_signal := (sp_signal sp)\<lparr>counter := counter (sp_signal sp) - 1\<rparr>,
                  sp_items := tl (sp_items sp)\<rparr>) env')
   \<and> (invoke (pw_callback pw) () env = (Some f, env')
    \<longrightarrow> pw_processor [(False, False)] pw env
          = (Looping, pw\<lparr>pw_signal := snd (try_acquire_for (pw_signal pw))\<rparr>, env')
        \<and> pw_processor ((False, False) # sched) pw env
          = pw_processor sched (pw\<lparr>pw_signal := snd (try_acquire_for (pw_signal pw))\<rparr>) env')
   \<and> fst (bw_processor sched w env) \<noteq> Terminated g
   \<and> fst (sw_processor sched sw env) \<noteq> Terminated g
   \<and> fst (bp_processor sched bp env) \<noteq> Terminated g
   \<and> fst (sp_processor sched sp env) \<noteq> Terminated g
   \<and> fst (pw_processor sched pw env) \<noteq> Terminated g"
  by (simp add: bw_try_block_raise sw_try_block_raise bp_try_block_raise sp_try_block_raise
      pw_try_block_raise catch_all_def
      bw_processor_never_terminated sw_processor_never_terminated
      bp_processor_never_terminated sp_processor_never_terminated
      pw_processor_never_terminated)

text \<open>
  Witness for C4: every loop with a callback that notes the item in the environment
  and then throws. The basic_worker with the items 1 and 2 queued is, after two
  iterations, still looping, its queue is empty and the environment shows that the
  callback ran on 1 and on 2; one iteration of the other loops ends the same way.
\<close>

theorem callback_faults_discarded_witness:
  "invoke (Some (\<lambda>item env. (Some (Thrown item), env @ [item]))) (1::nat) [] = (Some (Thrown 1), [1])
   \<and> invoke (Some (\<lambda>u env. (Some (Thrown 0), env @ [0::nat]))) () [] = (Some (Thrown 0), [0])
   \<and> bw_processor [(False, False), (False, False)]
        \<lparr>bw_items = [1::nat, 2], bw_signal = \<lparr>counter = 2, sem_max = 512\<rparr>,
         bw_callback = Some (\<lambda>item env. (Some (Thrown item), env @ [item]))\<rparr> []
      = (Looping,
         \<lparr>bw_items = [], bw_signal = \<lparr>counter = 0, sem_max = 512\<rparr>,
          bw_callback = Some (\<lambda>item env. (Some (Thrown item), env @ [item]))\<rparr>, [1, 2])
   \<and> sw_processor [(False, False)]
        \<lparr>sw_queueCounter = 2, sw_items = [1::nat, 2], sw_signal = \<lparr>counter = 2, sem_max = 512\<rparr>,
         sw_callback = Some (\<lambda>item env. (Some (Thrown item), env @ [item]))\<rparr> []
      = (Looping,
         \<lparr>sw_queueCounter = 2, sw_items = [2], sw_signal = \<lparr>counter = 1, sem_max = 512\<rparr>,
          sw_callback = Some (\<lambda>item env. (Some (Thrown item), env @ [item]))\<rparr>, [1])
   \<and> bp_processor [(False, False)]
        \<lparr>bp_queueCounter = 2, bp_workers = 4,
         bp_callback = Some (\<lambda>item env. (Some (Thrown item), env @ [item])),
         bp_signal = \<lparr>counter = 2, sem_max = 512\<rparr>, bp_items = [1::nat, 2]\<rparr> []
      = (Looping,
         \<lparr>bp_queueCounter = 2, bp_workers = 4,
          bp_callback = Some (\<lambda>item env. (Some (Thrown item), env @ [item])),
          bp_signal = \<lparr>counter = 1, sem_max = 512\<rparr>, bp_items = [2]\<rparr>, [1])
   \<and> sp_processor [(False, False)]
        \<lparr>sp_queueCounter = 2,
         sp_callback = Some (\<lambda>item env. (Some (Thrown item), env @ [item])),
         sp_signal = \<lparr>counter = 2, sem_max = 1024\<rparr>, sp_items = [1::nat, 2]\<rparr> []
      = (Looping,
         \<lparr>sp_queueCounter = 2,
          sp_callback = Some (\<lambda>item env. (Some (Thrown item), env @ [item])),
          sp_signal = \<lparr>counter = 1, sem_max = 1024\<rparr>, sp_items = [2]\<rparr>, [1])
   \<and> pw_processor [(False, False)]
        \<lparr>invokeCounter = 0, pw_signal = \<lparr>counter = 0, sem_max = 1\<rparr>,
         pw_callback = Some (\<lambda>u env. (Some (Thrown 0), env @ [0::nat]))\<rparr> []
      = (Looping,
         \<lparr>invokeCounter = 0, pw_signal = \<lparr>counter = 0, sem_max = 1\<rparr>,
          pw_callback = Some (\<lambda>u env. (Some (Thrown 0), env @ [0::nat]))\<rparr>, [0])"
proof -
  let ?cb = "Some (\<lambda>item env. (Some (Thrown item), env @ [item])) :: (nat, nat list) callback"
  let ?pcb = "Some (\<lambda>u env. (Some (Thrown 0), env @ [0::nat])) :: (unit, nat list) callback"
  let ?w = "\<lparr>bw_items = [1::nat, 2], bw_signal = \<lparr>counter = 2, sem_max = 512\<rparr>,
             bw_callback = ?cb\<rparr>"
  let ?w1 = "\<lparr>bw_items = [2::nat], bw_signal = \<lparr>counter = 1, sem_max = 512\<rparr>,
              bw_callback = ?cb\<rparr>"
  let ?sw = "\<lparr>sw_queueCounter = 2, sw_items = [1::nat, 2],
              sw_signal = \<lparr>counter = 2, sem_max = 512\<rparr>, sw_callback = ?cb\<rparr>"
  let ?bp = "\<lparr>bp_queueCounter = 2, bp_workers = 4, bp_callback = ?cb,
              bp_signal = \<lparr>counter = 2, sem_max = 512\<rparr>, bp_items = [1::nat, 2]\<rparr>"
  let ?sp = "\<lparr>sp_queueCounter = 2, sp_callback = ?cb,
              sp_signal = \<lparr>counter = 2, sem_max = 1024\<rparr>, sp_items = [1::nat, 2]\<rparr>"
  let ?pw = "\<lparr>invokeCounter = 0, pw_signal = \<lparr>counter = 0, sem_max = 1\<rparr>,
              pw_callback = ?pcb\<rparr>"
  have i1: "invoke ?cb (1::nat) [] = (Some (Thrown 1), [1])"
    by (simp add: invoke_def)
  have i2: "invoke ?cb (2::nat) [1] = (Some (Thrown 2), [1, 2])"
    by (simp add: invoke_def)
  have i0: "invoke ?pcb () [] = (Some (Thrown 0), [0])"
    by (simp add: invoke_def)
  note first = callback_faults_discarded
    [where w = ?w and sw = ?sw and bp = ?bp and sp = ?sp and env = "[]" and f = "Thrown 1"
       and env' = "[1]" and sched = "[(False, False)]" and g = "Thrown 1" and pw = ?pw]
  note second = callback_faults_discarded
    [where w = ?w1 and sw = ?sw and bp = ?bp and sp = ?sp and env = "[1]" and f = "Thrown 2"
       and env' = "[1, 2]" and sched = "[]" and g = "Thrown 1" and pw = ?pw]
  note periodic = callback_faults_discarded
    [where w = ?w and sw = ?sw and bp = ?bp and sp = ?sp and env = "[]" and f = "Thrown 0"
       and env' = "[0]" and sched = "[]" and g = "Thrown 1" and pw = ?pw]
  have a: "bw_processor [(False, False), (False, False)] ?w [] = bw_processor [(False, False)] ?w1 [1]"
    using first i1 by simp
  have b: "bw_processor [(False, False)] ?w1 [1]
            = (Looping, \<lparr>bw_items = [], bw_signal = \<lparr>counter = 0, sem_max = 512\<rparr>,
                         bw_callback = ?cb\<rparr>, [1, 2])"
    using second i2 by simp
  have c: "sw_processor [(False, False)] ?sw []
            = (Looping, \<lparr>sw_queueCounter = 2, sw_items = [2],
                 sw_signal = \<lparr>counter = 1, sem_max = 512\<rparr>, sw_callback = ?cb\<rparr>, [1])"
    using first i1 by simp
  have d: "bp_processor [(False, False)] ?bp []
            = (Looping, \<lparr>bp_queueCounter = 2, bp_workers = 4, bp_callback = ?cb,
                 bp_signal = \<lparr>counter = 1, sem_max = 512\<rparr>, bp_items = [2]\<rparr>, [1])"
    using first i1 by simp
  have e: "sp_processor [(False, False)] ?sp []
            = (Looping, \<lparr>sp_queueCounter = 2, sp_callback = ?cb,
                 sp_signal = \<lparr>counter = 1, sem_max = 1024\<rparr>, sp_items = [2]\<rparr>, [1])"
    using first i1 by simp
  have p: "pw_processor [(False, False)] ?pw [] = (Looping, ?pw, [0])"
    using periodic i0 by (simp add: try_acquire_for_def)
  show ?thesis
    using i1 i0 a b c d e p by simp
qed

section \<open>Capacity of queue\<close>

text \<open>
  C5, as the specification states it, fails: \<open>queue\<close> releases the semaphore without
  looking at its counter. With \<open>max() = 512\<close>, the value of the declared
  \<open>counting_semaphore<512>\<close> on the usual standard libraries, 512 calls of \<open>queue\<close> on
  a worker that has not consumed anything return, and the next call releases a
  semaphore whose counter is \<open>max()\<close>, which the standard leaves undefined.
\<close>

theorem queue_overflow_counterexample:
  "bw_queue_all (replicate 512 (0::nat)) (basic_worker_new 512 None :: (nat, unit) basic_worker)
     = Inr \<lparr>bw_items = replicate 512 0, bw_signal = \<lparr>counter = 512, sem_max = 512\<rparr>,
            bw_callback = None\<rparr>
   \<and> bw_queue (0::nat) (\<lparr>bw_items = replicate 512 0, bw_signal = \<lparr>counter = 512, sem_max = 512\<rparr>,
            bw_callback = None\<rparr> :: (nat, unit) basic_worker) = Inl Undefined_behaviour
   \<and> bw_queue_all (replicate 513 (0::nat)) (basic_worker_new 512 None :: (nat, unit) basic_worker)
     = Inl Undefined_behaviour"
  by (simp add: bw_queue_all_replicate bw_queue_at_max basic_worker_new_def
      counting_semaphore_new_def)

text \<open>
  C5, amended: \<open>queue\<close> never waits and never refuses an item; whenever fewer signals
  are outstanding than the semaphore's \<open>max()\<close> (at least 512 for the workers and
  basic_pool) it succeeds: the item is appended at the back of the deque and the count
  of the signal goes up by one. This holds for basic_worker, simple_worker and
  simple_pool alike.
\<close>

theorem queue_succeeds_below_max:
  "(counter (bw_signal w) < sem_max (bw_signal w)
    \<longrightarrow> bw_queue x w =
          Inr (w\<lparr>bw_items := bw_items w @ [x],
                 bw_signal := (bw_signal w)\<lparr>counter := counter (bw_signal w) + 1\<rparr>\<rparr>))
   \<and> (counter (sw_signal sw) < sem_max (sw_signal sw)
    \<longrightarrow> sw_queue x sw =
          Inr (sw\<lparr>sw_items := sw_items sw @ [x], sw_queueCounter := sw_queueCounter sw + 1,
                  sw_signal := (sw_signal sw)\<lparr>counter := counter (sw_signal sw) + 1\<rparr>\<rparr>))
   \<and> (counter (sp_signal sp) < sem_max (sp_signal sp)
    \<longrightarrow> sp_queue x sp =
          Inr (sp\<lparr>sp_items := sp_items sp @ [x],
                  sp_signal := (sp_signal sp)\<lparr>counter := counter (sp_signal sp) + 1\<rparr>,
                  sp_queueCounter := sp_queueCounter sp + 1\<rparr>))"
  by (simp add: bw_queue_def sw_queue_def sp_queue_def release_def Let_def)

text \<open>
  Witness for C5: the first call of \<open>queue\<close> on a fresh basic_worker, on a fresh
  simple_worker and on a simple_pool with nothing queued.
\<close>

theorem queue_succeeds_below_max_witness:
  "counter (bw_signal (basic_worker_new 512 None :: (nat, unit) basic_worker))
     < sem_max (bw_signal (basic_worker_new 512 None :: (nat, unit) basic_worker))
   \<and> bw_queue (5::nat) (basic_worker_new 512 None :: (nat, unit) basic_worker)
       = Inr \<lparr>bw_items = [5], bw_signal = \<lparr>counter = 1, sem_max = 512\<rparr>, bw_callback = None\<rparr>
   \<and> sw_queue (5::nat) (simple_worker_new 512 None :: (nat, unit) simple_worker)
       = Inr \<lparr>sw_queueCounter = 1, sw_items = [5], sw_signal = \<lparr>counter = 1, sem_max = 512\<rparr>,
              sw_callback = None\<rparr>
   \<and> sp_queue (5::nat) (\<lparr>sp_queueCounter = 0, sp_callback = None,
                           sp_signal = \<lparr>counter = 0, sem_max = 1024\<rparr>, sp_items = []\<rparr>
                         :: (nat, unit) simple_pool)
       = Inr \<lparr>sp_queueCounter = 1, sp_callback = None,
              sp_signal = \<lparr>counter = 1, sem_max = 1024\<rparr>, sp_items = [5]\<rparr>"
  using queue_succeeds_below_max
    [where w = "basic_worker_new 512 None :: (nat, unit) basic_worker" and x = "5::nat"
       and sw = "simple_worker_new 512 None :: (nat, unit) simple_worker"
       and sp = "\<lparr>sp_queueCounter = 0, sp_callback = None,
                   sp_signal = \<lparr>counter = 0, sem_max = 1024\<rparr>, sp_items = []\<rparr>
                 :: (nat, unit) simple_pool"]
  by (simp add: basic_worker_new_def simple_worker_new_def counting_semaphore_new_def)

section \<open>FIFO order of the guarded queue\<close>

text \<open>
  C6: within one guarded queue the consumer sees the items in the order in which they
  were appended. In every run of appends and extractions, in any interleaving, the
  items extracted so far followed by the items still queued are the items queued at the
  start followed by the appended items, in the order of the appends. Each append that
  returns puts its item at the back; each extraction that yields an item removes
  exactly the front element. After a sequence \<open>xs\<close> of appends any number of
  extractions yields a prefix of the old items followed by \<open>xs\<close>, and all of it when
  every queued item has its signal.
\<close>

theorem guarded_queue_fifo:
  "(sp_run ops (p :: ('a, 'b) simple_pool) = Inr (out, p')
      \<longrightarrow> out @ sp_items p' = sp_items p @ appended ops)
   \<and> (sp_queue x p = Inr q \<longrightarrow> sp_items q = sp_items p @ [x])
   \<and> (bw_queue x (w :: ('a, 'b) basic_worker) = Inr w' \<longrightarrow> bw_items w' = bw_items w @ [x])
   \<and> (getNextItem p = (Some y, r) \<longrightarrow> sp_items p = y # sp_items r)
   \<and> (sp_queue_all xs p = Inr s
      \<longrightarrow> sp_items s = sp_items p @ xs
        \<and> fst (sp_drain n s) = take (min n (counter (sp_signal s))) (sp_items p @ xs)
        \<and> (length (sp_items p) \<le> counter (sp_signal p)
             \<longrightarrow> fst (sp_drain (length (sp_items p) + length xs) s) = sp_items p @ xs))"
proof (intro conjI impI)
  assume "sp_run ops p = Inr (out, p')"
  then show "out @ sp_items p' = sp_items p @ appended ops"
    by (rule sp_run_fifo)
next
  assume "sp_queue x p = Inr q"
  then show "sp_items q = sp_items p @ [x]"
    by (simp add: sp_queue_Inr)
next
  assume "bw_queue x w = Inr w'"
  then show "bw_items w' = bw_items w @ [x]"
    by (rule bw_queue_Inr)
next
  assume "getNextItem p = (Some y, r)"
  then show "sp_items p = y # sp_items r"
    by (simp add: getNextItem_Some)
next
  assume a: "sp_queue_all xs p = Inr s"
  show "sp_items s = sp_items p @ xs"
    using sp_queue_all_Inr [OF a] by simp
  show "fst (sp_drain n s) = take (min n (counter (sp_signal s))) (sp_items p @ xs)"
    using sp_queue_all_Inr [OF a] by (simp add: sp_drain_prefix)
  show "fst (sp_drain (length (sp_items p) + length xs) s) = sp_items p @ xs"
    if "length (sp_items p) \<le> counter (sp_signal p)"
    using that sp_queue_all_Inr [OF a] by (simp add: sp_drain_prefix)
qed

text \<open>
  Witness for C6: on a pool with nothing queued, two appends, an extraction, a third
  append and two extractions yield 1, 2, 3; three appends followed by three extractions
  yield 1, 2, 3.
\<close>

theorem guarded_queue_fifo_witness:
  "sp_run [Append (1::nat), Append 2, Extract, Append 3, Extract, Extract]
      (\<lparr>sp_queueCounter = 0, sp_callback = None,
        sp_signal = \<lparr>counter = 0, sem_max = 1024\<rparr>, sp_items = []\<rparr> :: (nat, unit) simple_pool)
    = Inr ([1, 2, 3],
           \<lparr>sp_queueCounter = 3, sp_callback = None,
            sp_signal = \<lparr>counter = 0, sem_max = 1024\<rparr>, sp_items = []\<rparr>)
   \<and> appended [Append (1::nat), Append 2, Extract, Append 3, Extract, Extract] = [1, 2, 3]
   \<and> sp_queue_all [1::nat, 2, 3]
      (\<lparr>sp_queueCounter = 0, sp_callback = None,
        sp_signal = \<lparr>counter = 0, sem_max = 1024\<rparr>, sp_items = []\<rparr> :: (nat, unit) simple_pool)
    = Inr \<lparr>sp_queueCounter = 3, sp_callback = None,
           sp_signal = \<lparr>counter = 3, sem_max = 1024\<rparr>, sp_items = [1, 2, 3]\<rparr>
   \<and> fst (sp_drain 3 (\<lparr>sp_queueCounter = 3, sp_callback = None,
           sp_signal = \<lparr>counter = 3, sem_max = 1024\<rparr>, sp_items = [1::nat, 2, 3]\<rparr>
           :: (nat, unit) simple_pool)) = [1, 2, 3]
   \<and> getNextItem (\<lparr>sp_queueCounter = 3, sp_callback = None,
           sp_signal = \<lparr>counter = 3, sem_max = 1024\<rparr>, sp_items = [1::nat, 2, 3]\<rparr>
           :: (nat, unit) simple_pool)
      = (Some 1, \<lparr>sp_queueCounter = 3, sp_callback = None,
           sp_signal = \<lparr>counter = 2, sem_max = 1024\<rparr>, sp_items = [2, 3]\<rparr>)
   \<and> bw_queue (5::nat) (basic_worker_new 512 None :: (nat, unit) basic_worker)
       = Inr \<lparr>bw_items = [5], bw_signal = \<lparr>counter = 1, sem_max = 512\<rparr>, bw_callback = None\<rparr>"
proof -
  let ?p = "\<lparr>sp_queueCounter = 0, sp_callback = None,
        sp_signal = \<lparr>counter = 0, sem_max = 1024\<rparr>, sp_items = []\<rparr> :: (nat, unit) simple_pool"
  let ?s = "\<lparr>sp_queueCounter = 3, sp_callback = None,
           sp_signal = \<lparr>counter = 3, sem_max = 1024\<rparr>, sp_items = [1::nat, 2, 3]\<rparr>
           :: (nat, unit) simple_pool"
  let ?e = "\<lparr>sp_queueCounter = 3, sp_callback = None,
            sp_signal = \<lparr>counter = 0, sem_max = 1024\<rparr>, sp_items = []\<rparr> :: (nat, unit) simple_pool"
  let ?ops = "[Append (1::nat), Append 2, Extract, Append 3, Extract, Extract]"
  have mixed: "sp_run ?ops ?p = Inr ([1, 2, 3], ?e)"
    by (simp add: sp_queue_def getNextItem_def release_def try_acquire_for_def Let_def)
  have run: "sp_queue_all [1::nat, 2, 3] ?p = Inr ?s"
    by (simp add: sp_queue_def release_def Let_def)
  have nxt: "getNextItem ?s = (Some 1, \<lparr>sp_queueCounter = 3, sp_callback = None,
           sp_signal = \<lparr>counter = 2, sem_max = 1024\<rparr>, sp_items = [2, 3]\<rparr>)"
    by (simp add: getNextItem_def try_acquire_for_def Let_def)
  have bq: "bw_queue (5::nat) (basic_worker_new 512 None :: (nat, unit) basic_worker)
       = Inr \<lparr>bw_items = [5], bw_signal = \<lparr>counter = 1, sem_max = 512\<rparr>, bw_callback = None\<rparr>"
    by (simp add: bw_queue_def release_def Let_def basic_worker_new_def
        counting_semaphore_new_def)
  note fifo = guarded_queue_fifo [where p = ?p and ops = ?ops and out = "[1, 2, 3]" and p' = ?e
      and xs = "[1::nat, 2, 3]" and s = ?s and n = 3]
  have app: "[1, 2, 3] @ sp_items ?e = sp_items ?p @ appended ?ops"
    using fifo mixed by blast
  have drained: "fst (sp_drain 3 ?s) = [1, 2, 3]"
    using fifo run by simp
  show ?thesis
    using mixed run nxt bq app drained by simp
qed

section \<open>Every item is handed to the callback once\<close>



section \<open>Constraints on the payload type\<close>

text \<open>
  C8: the requires clause of basic_worker asks for \<open>std::copy_constructible<T>\<close>, so a
  payload type that can only be moved, such as \<open>nonCopyableObject\<close> of
  tests/basic_worker.cpp (test3), is rejected by basic_worker, while simple_worker with
  the same priority accepts it. The claim, and the test, have every worker accept a
  type that is only movable.
\<close>

theorem basic_worker_rejects_move_only:
  "\<not> basic_worker_requires 0 nonCopyableObject \<and> simple_worker_requires 0 nonCopyableObject"
  by (simp add: basic_worker_requires_def simple_worker_requires_def nonCopyableObject_def)

section \<open>The invocation counter of the periodic worker\<close>

text \<open>
  C9: in the loop of the periodic worker the counter is incremented after the callback
  has returned. In an iteration whose callback throws the counter keeps its value, in
  the try block and in the whole iteration of the loop; in an iteration whose callback
  returns, with no stop requested, it goes up by one. So it counts the invocations that
  completed.
\<close>

theorem invokeCounter_counts_completed:
  "(invoke (pw_callback w) () env = (Some f, env')
     \<longrightarrow> invokeCounter (fst (snd (pw_try_block stop w env))) = invokeCounter w
       \<and> invokeCounter (fst (snd (pw_processor [(False, stop)] w env))) = invokeCounter w)
   \<and> (invoke (pw_callback w) () env = (None, env') \<and> \<not> stop
     \<longrightarrow> invokeCounter (fst (snd (pw_try_block stop w env))) = invokeCounter w + 1
       \<and> invokeCounter (fst (snd (pw_processor [(False, stop)] w env))) = invokeCounter w + 1)"
  by (simp add: pw_try_block_def Let_def catch_all_def)

text \<open>
  Witness for C9: a periodic worker whose counter is 4, with a callback that throws
  when the environment is \<open>True\<close> and returns when it is \<open>False\<close>.
\<close>

theorem invokeCounter_counts_completed_witness:
  "invoke (Some (\<lambda>u env. (if env then Some (Thrown 0) else None, env))) () True
     = (Some (Thrown 0), True)
   \<and> invoke (Some (\<lambda>u env. (if env then Some (Thrown 0) else None, env))) () False
     = (None, False)
   \<and> invokeCounter (fst (snd (pw_processor [(False, False)]
        \<lparr>invokeCounter = 4, pw_signal = \<lparr>counter = 0, sem_max = 1\<rparr>,
         pw_callback = Some (\<lambda>u env. (if env then Some (Thrown 0) else None, env))\<rparr> True))) = 4
   \<and> invokeCounter (fst (snd (pw_processor [(False, False)]
        \<lparr>invokeCounter = 4, pw_signal = \<lparr>counter = 0, sem_max = 1\<rparr>,
         pw_callback = Some (\<lambda>u env. (if env then Some (Thrown 0) else None, env))\<rparr> False))) = 5"
  using invokeCounter_counts_completed
    [where w = "\<lparr>invokeCounter = 4, pw_signal = \<lparr>counter = 0, sem_max = 1\<rparr>,
         pw_callback = Some (\<lambda>u env. (if env then Some (Thrown 0) else None, env))\<rparr>"
       and env = True and env' = True and f = "Thrown 0" and stop = False]
    invokeCounter_counts_completed
    [where w = "\<lparr>invokeCounter = 4, pw_signal = \<lparr>counter = 0, sem_max = 1\<rparr>,
         pw_callback = Some (\<lambda>u env. (if env then Some (Thrown 0) else None, env))\<rparr>"
       and env = False and env' = False and f = "Thrown 0" and stop = False]
  by (simp add: invoke_def)

section \<open>Move construction of a worker\<close>

text \<open>
  C10: the move constructor of a worker takes the callback of the source and nothing
  else. Whatever the source holds, the new basic_worker starts with an empty queue and
  a signal count of zero, and the new simple_worker starts with an empty queue, a signal
  count of zero and an enqueue counter of zero; the items pending in the source are not
  in the new worker.
\<close>

theorem move_constructor_transfers_callback_only:
  "bw_items (basic_worker_move src) = []
   \<and> counter (bw_signal (basic_worker_move src)) = 0
   \<and> bw_callback (basic_worker_move src) = bw_callback src
   \<and> sw_items (simple_worker_move ssrc) = []
   \<and> counter (sw_signal (simple_worker_move ssrc)) = 0
   \<and> sw_queueCounter (simple_worker_move ssrc) = 0
   \<and> sw_callback (simple_worker_move ssrc) = sw_callback ssrc"
  by (simp add: basic_worker_move_def simple_worker_move_def counting_semaphore_new_def)

end
